theory Spec2Isabelle
  imports Main
begin

section \<open>Website status checker: probe aggregation and consensus\<close>

text \<open>
  A shallow embedding of \<^verbatim>\<open>backend/lambda_function.py\<close>. Python dictionaries with
  a fixed set of keys are records, open-ended mappings are association lists, every
  \<^verbatim>\<open>raise\<close> is the \<open>Inl\<close> branch of a sum, and everything the program obtains
  from outside (resolver, HTTP client, sockets, DynamoDB, the Lambda client, the clock,
  the process environment) is a field of the record \<open>env\<close>. The mutable part of the
  outside world (the cache table, the number of clock readings taken, the log of the
  outside calls made so far) is the record \<open>state\<close>, passed through every function
  that touches it.
\<close>

subsection \<open>Exceptions and strings\<close>

datatype exn =
    ValueError string
  | AttributeError string
  | KeyError string
  | TypeError string
  | TimeoutError
  | ClientError string
  | OtherException string

text \<open>\<^verbatim>\<open>str(e)\<close>, as far as the program stores it.\<close>

fun str_exn :: "exn \<Rightarrow> string" where
  "str_exn (ValueError m) = m"
| "str_exn (AttributeError m) = m"
| "str_exn (KeyError m) = m"
| "str_exn (TypeError m) = m"
| "str_exn TimeoutError = []"
| "str_exn (ClientError m) = m"
| "str_exn (OtherException m) = m"

definition startswith :: "string \<Rightarrow> string \<Rightarrow> bool" where
  "startswith s p = (take (length p) s = p)"

text \<open>\<^verbatim>\<open>sub in s\<close> on strings.\<close>

fun contains :: "string \<Rightarrow> string \<Rightarrow> bool" where
  "contains sub [] = (sub = [])"
| "contains sub (c # cs) = (startswith (c # cs) sub \<or> contains sub cs)"

definition is_upper :: "char \<Rightarrow> bool" where
  "is_upper c = (65 \<le> (of_char c :: nat) \<and> (of_char c :: nat) \<le> 90)"

definition is_lower :: "char \<Rightarrow> bool" where
  "is_lower c = (97 \<le> (of_char c :: nat) \<and> (of_char c :: nat) \<le> 122)"

definition is_digit :: "char \<Rightarrow> bool" where
  "is_digit c = (48 \<le> (of_char c :: nat) \<and> (of_char c :: nat) \<le> 57)"

definition lower_char :: "char \<Rightarrow> char" where
  "lower_char c = (if is_upper c then char_of (of_char c + (32 :: nat)) else c)"

text \<open>\<^verbatim>\<open>s.lower()\<close> on ASCII text.\<close>

definition lower :: "string \<Rightarrow> string" where
  "lower s = map lower_char s"

text \<open>\<^verbatim>\<open>sep.join(parts)\<close>.\<close>

fun join :: "string \<Rightarrow> string list \<Rightarrow> string" where
  "join sep [] = []"
| "join sep [p] = p"
| "join sep (p # q # ps) = p @ sep @ join sep (q # ps)"

text \<open>
  \<^verbatim>\<open>s.partition(c)\<close> and \<^verbatim>\<open>s.rpartition(c)\<close> for a one-character separator: the
  text before the separator, whether the separator was found, the text after it.
\<close>

definition partition_chr :: "char \<Rightarrow> string \<Rightarrow> string \<times> bool \<times> string" where
  "partition_chr c s =
     (if c \<in> set s then (takeWhile (\<lambda>x. x \<noteq> c) s, True, tl (dropWhile (\<lambda>x. x \<noteq> c) s))
      else (s, False, []))"

definition rpartition_chr :: "char \<Rightarrow> string \<Rightarrow> string \<times> bool \<times> string" where
  "rpartition_chr c s =
     (if c \<in> set s
      then (rev (tl (dropWhile (\<lambda>x. x \<noteq> c) (rev s))), True, rev (takeWhile (\<lambda>x. x \<noteq> c) (rev s)))
      else ([], False, s))"

text \<open>\<^verbatim>\<open>s.split(c)\<close> with an explicit one-character separator (never an empty list).\<close>

fun split_chr :: "char \<Rightarrow> string \<Rightarrow> string list" where
  "split_chr c [] = [[]]"
| "split_chr c (x # xs) =
     (if x = c then [] # split_chr c xs
      else (case split_chr c xs of
              [] \<Rightarrow> [[x]]
            | w # ws \<Rightarrow> (x # w) # ws))"

text \<open>\<^verbatim>\<open>s.strip()\<close>: ASCII white space (tab to carriage return, the separators 28 to 31, space).\<close>

definition is_space :: "char \<Rightarrow> bool" where
  "is_space c = (let n = (of_char c :: nat) in (9 \<le> n \<and> n \<le> 13) \<or> (28 \<le> n \<and> n \<le> 32))"

definition strip :: "string \<Rightarrow> string" where
  "strip s = rev (dropWhile is_space (rev (dropWhile is_space s)))"

text \<open>\<^verbatim>\<open>int(s)\<close> for a string of ASCII digits.\<close>

definition digits_value :: "string \<Rightarrow> nat" where
  "digits_value s = foldl (\<lambda>acc c. 10 * acc + ((of_char c :: nat) - 48)) 0 s"

subsection \<open>The outside world\<close>

record http_response =
  r_status_code :: int
  r_text :: string
  r_content_length :: nat
  r_url :: string

datatype http_outcome =
    Response http_response
  | Timeout
  | RequestException string

text \<open>
  A number inside an observer result: the \<^verbatim>\<open>int\<close> an observer stores, or the
  \<^verbatim>\<open>Decimal\<close> that \<^verbatim>\<open>boto3\<close> hands back for a number read from the table.
  \<^verbatim>\<open>json.dumps\<close> refuses a \<^verbatim>\<open>Decimal\<close>.
\<close>

datatype number = PyInt int | PyDecimal int

text \<open>What one entry of the external mapping holds: the four shapes the observers build.\<close>

record protocol_entry =
  pe_protocol :: string
  pe_status :: string
  pe_status_code :: "number option"
  pe_error :: "string option"

datatype observer_result =
    WithMessage string string
  | WithStatusCode string number
  | WithError string string
  | WithProtocols string "protocol_entry list"

fun obs_status :: "observer_result \<Rightarrow> string" where
  "obs_status (WithMessage st _) = st"
| "obs_status (WithStatusCode st _) = st"
| "obs_status (WithError st _) = st"
| "obs_status (WithProtocols st _) = st"

type_synonym checks_map = "(string \<times> observer_result) list"

text \<open>A payload as a later read of the table returns it: every number a \<^verbatim>\<open>Decimal\<close>.\<close>

fun as_decimal :: "number \<Rightarrow> number" where
  "as_decimal (PyInt n) = PyDecimal n"
| "as_decimal (PyDecimal n) = PyDecimal n"

fun read_back :: "observer_result \<Rightarrow> observer_result" where
  "read_back (WithMessage st m) = WithMessage st m"
| "read_back (WithStatusCode st n) = WithStatusCode st (as_decimal n)"
| "read_back (WithError st m) = WithError st m"
| "read_back (WithProtocols st ps) =
     WithProtocols st (map (\<lambda>p. p\<lparr>pe_status_code := map_option as_decimal (pe_status_code p)\<rparr>) ps)"

definition stored_payload :: "checks_map \<Rightarrow> checks_map" where
  "stored_payload m = map (\<lambda>(svc, r). (svc, read_back r)) m"

fun is_decimal :: "number \<Rightarrow> bool" where
  "is_decimal (PyInt n) = False"
| "is_decimal (PyDecimal n) = True"

fun holds_decimal :: "observer_result \<Rightarrow> bool" where
  "holds_decimal (WithMessage st m) = False"
| "holds_decimal (WithStatusCode st n) = is_decimal n"
| "holds_decimal (WithError st m) = False"
| "holds_decimal (WithProtocols st ps) =
     list_ex (\<lambda>p. case pe_status_code p of Some n \<Rightarrow> is_decimal n | None \<Rightarrow> False) ps"

text \<open>
  A row of the cache table under the key \<^verbatim>\<open>{'url': url, 'type': 'external'}\<close>.
  \<open>ci_data\<close> is the payload as a read hands it back. \<open>ci_timestamp\<close> is the UTC
  wall-clock time of the write in microseconds (the resolution of \<^verbatim>\<open>datetime\<close>);
  \<open>ci_ttl\<close> is in whole seconds since the epoch. \<open>Malformed\<close> is a row whose
  \<^verbatim>\<open>timestamp\<close> or \<^verbatim>\<open>data\<close> cannot be read (a missing key, a text that
  \<^verbatim>\<open>fromisoformat\<close> refuses).
\<close>

record cache_item =
  ci_data :: checks_map
  ci_timestamp :: int
  ci_ttl :: int

datatype row = Malformed | Row cache_item

text \<open>
  The body of a peer region's reply, after \<^verbatim>\<open>json.loads\<close>: an object, with the text
  under \<^verbatim>\<open>status\<close> if there is one, or a value that is not an object. A reply is an
  exception (of the invocation, of reading or decoding the payload) or a payload with
  its \<^verbatim>\<open>statusCode\<close> and its body, \<open>None\<close> for a body that is missing or does not
  decode.
\<close>

datatype json_body =
    JObject "string option"
  | JNonObject

datatype invoke_outcome =
    InvokeRaises exn
  | Payload "int option" "json_body option"

text \<open>
  Where a cache write fails: creating the \<^verbatim>\<open>boto3\<close> resource (before the item and
  its clock readings exist) or the \<^verbatim>\<open>put_item\<close> call.
\<close>

datatype write_failure = ResourceFails exn | PutItemFails exn

text \<open>The calls that leave the process, as the log of the state records them.\<close>

datatype call =
    DnsLookup "string option"
  | HttpGet string
  | HttpHead string
  | TcpConnect "string option" nat
  | CacheGet string
  | CachePut string
  | LambdaInvoke string

text \<open>
  \<open>env\<close> holds what the outside world answers. \<open>gethostbyname\<close> takes the resolver
  label of the loop iteration that makes the lookup, so that the three lookups of one
  probe may differ. \<open>completes_in_budget\<close> says whether an observer's future is done
  before the deadline of \<^verbatim>\<open>as_completed(futures, timeout=5)\<close>. \<open>get_item_fails\<close>
  gives the exception a table read raises, if it does, anywhere between creating the
  \<^verbatim>\<open>boto3\<close> resource and the answer of the table; \<open>put_item_fails\<close> gives the
  failure of a table write, if any. \<open>utcnow n\<close> is the \<open>n\<close>-th reading of
  \<^verbatim>\<open>datetime.utcnow()\<close> by the cache gateway: the UTC wall-clock time in
  microseconds, as a naive value. \<open>utc_offset t\<close> is what \<^verbatim>\<open>timestamp()\<close>
  subtracts from a naive value \<open>t\<close>, which it reads as local time: the offset of the
  process's time zone from UTC at that time, in microseconds (zero when the process runs
  in UTC). \<open>bracketed_host_ok\<close> and \<open>nfkc_ok\<close> are the two validations of
  \<^verbatim>\<open>urllib.parse\<close> that the model does not spell out: whether the text between
  square brackets is an IPv6 or IPvFuture literal, and whether a non-ASCII network
  location stays free of \<^verbatim>\<open>/ ? # @ :\<close> under NFKC normalisation. \<open>aws_region\<close> and \<open>other_regions_var\<close> are the values read from
  the process environment (with their defaults), \<open>lambda_client_fails\<close> is the
  exception of creating the Lambda client, if any, and \<open>invoke f u\<close> is the outcome of
  invoking the function named \<open>f\<close> with the URL \<open>u\<close>.

  \<open>state\<close> is what changes: the cache table, the number of clock readings taken, and
  the outside calls made so far, in order.
\<close>

record env =
  bracketed_host_ok :: "string \<Rightarrow> bool"
  nfkc_ok :: "string \<Rightarrow> bool"
  gethostbyname :: "string \<Rightarrow> string option \<Rightarrow> exn + string"
  requests_get :: "string \<Rightarrow> http_outcome"
  requests_head :: "string \<Rightarrow> http_outcome"
  connect_ex :: "string option \<Rightarrow> nat \<Rightarrow> exn + int"
  completes_in_budget :: "string \<Rightarrow> bool"
  get_item_fails :: "string \<Rightarrow> exn option"
  put_item_fails :: "string \<Rightarrow> write_failure option"
  utcnow :: "nat \<Rightarrow> int"
  utc_offset :: "int \<Rightarrow> int"
  aws_region :: string
  other_regions_var :: string
  lambda_client_fails :: "exn option"
  invoke :: "string \<Rightarrow> string \<Rightarrow> invoke_outcome"

record state =
  cache_table :: "string \<Rightarrow> row option"
  ticks :: nat
  calls :: "call list"

definition log_call :: "call \<Rightarrow> state \<Rightarrow> state" where
  "log_call c s = s\<lparr>calls := calls s @ [c]\<rparr>"

subsection \<open>The part of \<^verbatim>\<open>urllib.parse.urlparse\<close> the program reads\<close>

text \<open>
  The program reads \<^verbatim>\<open>scheme\<close>, \<^verbatim>\<open>netloc\<close>, \<^verbatim>\<open>hostname\<close> and \<^verbatim>\<open>port\<close> of the
  parse result. The model follows CPython's \<^verbatim>\<open>urlsplit\<close>: leading C0 control
  characters and spaces are stripped, tab, carriage return and line feed are removed, a
  scheme is split off at the first colon when the text before it starts with an ASCII
  letter and consists of scheme characters, and the network location is what follows a
  leading \<^verbatim>\<open>//\<close> up to the first of \<^verbatim>\<open>/ ? #\<close>. Three checks raise
  \<^verbatim>\<open>ValueError\<close>: a network location with one square bracket but not the other; a
  bracketed host that is not an address literal (\<^verbatim>\<open>_check_bracketed_host\<close>, asked of
  the environment); a non-ASCII network location that fails the NFKC check
  (\<^verbatim>\<open>_checknetloc\<close>, asked of the environment).
\<close>

record parse_result =
  p_scheme :: string
  p_netloc :: string

definition scheme_char :: "char \<Rightarrow> bool" where
  "scheme_char c = (is_lower c \<or> is_upper c \<or> is_digit c \<or> c \<in> set ''+-.'')"

definition c0_control_or_space :: "char \<Rightarrow> bool" where
  "c0_control_or_space c = ((of_char c :: nat) \<le> 32)"

definition unsafe_url_byte :: "char \<Rightarrow> bool" where
  "unsafe_url_byte c = ((of_char c :: nat) \<in> {9, 10, 13})"

definition is_ascii :: "string \<Rightarrow> bool" where
  "is_ascii s = list_all (\<lambda>c. (of_char c :: nat) < 128) s"

definition urlparse :: "env \<Rightarrow> string \<Rightarrow> exn + parse_result" where
  "urlparse e url0 =
     (let url = filter (\<lambda>c. \<not> unsafe_url_byte c) (dropWhile c0_control_or_space url0);
          pre = takeWhile (\<lambda>c. c \<noteq> CHR '':'') url;
          has_scheme = (CHR '':'' \<in> set url \<and> pre \<noteq> [] \<and>
                        (is_lower (hd pre) \<or> is_upper (hd pre)) \<and> list_all scheme_char pre);
          scheme = (if has_scheme then lower pre else []);
          rest = (if has_scheme then drop (Suc (length pre)) url else url)
      in if take 2 rest = ''//''
         then (let netloc = takeWhile (\<lambda>c. c \<notin> set ''/?#'') (drop 2 rest)
               in if (CHR ''['' \<in> set netloc \<and> CHR '']'' \<notin> set netloc) \<or>
                     (CHR '']'' \<in> set netloc \<and> CHR ''['' \<notin> set netloc)
                  then Inl (ValueError ''Invalid IPv6 URL'')
                  else if CHR ''['' \<in> set netloc \<and> CHR '']'' \<in> set netloc \<and>
                          \<not> bracketed_host_ok e
                              (takeWhile (\<lambda>c. c \<noteq> CHR '']'')
                                 (tl (dropWhile (\<lambda>c. c \<noteq> CHR ''['') netloc)))
                  then Inl (ValueError ''Invalid bracketed host'')
                  else if netloc \<noteq> [] \<and> \<not> is_ascii netloc \<and> \<not> nfkc_ok e netloc
                  then Inl (ValueError ''netloc contains invalid characters'')
                  else Inr \<lparr>p_scheme = scheme, p_netloc = netloc\<rparr>)
         else Inr \<lparr>p_scheme = scheme, p_netloc = []\<rparr>)"

text \<open>\<^verbatim>\<open>_hostinfo\<close>: the host text and the port text (\<open>None\<close> when empty or absent).\<close>

definition hostinfo :: "string \<Rightarrow> string \<times> string option" where
  "hostinfo netloc =
     (let (_, _, hi) = rpartition_chr CHR ''@'' netloc;
          (_, have_open_br, bracketed) = partition_chr CHR ''['' hi;
          (host, port) =
            (if have_open_br
             then (let (h, _, p) = partition_chr CHR '']'' bracketed;
                       (_, _, p') = partition_chr CHR '':'' p
                   in (h, p'))
             else (let (h, _, p) = partition_chr CHR '':'' hi in (h, p)))
      in (host, if port = [] then None else Some port))"

text \<open>\<^verbatim>\<open>parsed.hostname\<close>: lower-cased up to a zone separator, \<open>None\<close> when empty.\<close>

definition parsed_hostname :: "parse_result \<Rightarrow> string option" where
  "parsed_hostname p =
     (let host = fst (hostinfo (p_netloc p))
      in if host = [] then None
         else (let (h, percent, zone) = partition_chr CHR ''%'' host
               in Some (lower h @ (if percent then ''%'' else []) @ zone)))"

text \<open>\<^verbatim>\<open>parsed.port\<close>: raises on a port that is not a number in \<open>0..65535\<close>.\<close>

definition parsed_port :: "parse_result \<Rightarrow> exn + nat option" where
  "parsed_port p =
     (case snd (hostinfo (p_netloc p)) of
        None \<Rightarrow> Inr None
      | Some ps \<Rightarrow>
          if list_all is_digit ps
          then (if digits_value ps \<le> 65535 then Inr (Some (digits_value ps))
                else Inl (ValueError ''Port out of range 0-65535''))
          else Inl (ValueError ''Port could not be cast to integer value''))"

subsection \<open>URL validation\<close>

text \<open>
  \<open>ensure_protocol\<close> is the statement both \<^verbatim>\<open>is_valid_url\<close> and
  \<^verbatim>\<open>check_website_status\<close> start with: a URL that starts with neither
  \<^verbatim>\<open>http://\<close> nor \<^verbatim>\<open>https://\<close> gets \<^verbatim>\<open>https://\<close> in front. In
  \<^verbatim>\<open>is_valid_url\<close> the bare \<^verbatim>\<open>except\<close> turns a parse error into \<open>False\<close>.
\<close>

definition ensure_protocol :: "string \<Rightarrow> string" where
  "ensure_protocol url =
     (if \<not> (startswith url ''http://'' \<or> startswith url ''https://'')
      then ''https://'' @ url else url)"


subsection \<open>Probe results\<close>

text \<open>
  The dictionaries the three probes return. Timings (\<^verbatim>\<open>response_time_ms\<close>) are
  floating-point wall-clock measurements that no decision of the program reads; they
  are left out of the records.
\<close>

record dns_entry =
  dns_server :: string
  entry_status :: string
  ip_address :: "string option"
  entry_error :: "string option"

record dns_result =
  overall_status :: string
  success_count :: nat
  total_servers :: nat
  results :: "dns_entry list"

record http_result =
  http_status :: string
  status_code :: "int option"
  content_length :: "nat option"
  redirected :: "bool option"
  final_url :: "string option"
  http_error :: "string option"

record port_result =
  port_number :: nat
  port_status :: string
  port_error :: "string option"

text \<open>The argument of the verdict and summary functions: \<^verbatim>\<open>{'dns': .., 'http': .., 'port': ..}\<close>.\<close>

record checks =
  c_dns :: dns_result
  c_http :: http_result
  c_port :: port_result

subsection \<open>The probe set\<close>

text \<open>
  \<^verbatim>\<open>check_dns_resolution\<close>: one lookup per resolver label; the \<^verbatim>\<open>except\<close> of the
  loop body records a failed entry.
\<close>

definition dns_servers :: "string list" where
  "dns_servers = [''8.8.8.8'', ''1.1.1.1'', ''208.67.222.222'']"

fun dns_loop :: "env \<Rightarrow> string option \<Rightarrow> string list \<Rightarrow> dns_entry list \<Rightarrow> state
                 \<Rightarrow> dns_entry list \<times> state" where
  "dns_loop e domain [] acc s = (acc, s)"
| "dns_loop e domain (srv # srvs) acc s =
     (case gethostbyname e srv domain of
        Inr ip \<Rightarrow>
          dns_loop e domain srvs
            (acc @ [\<lparr>dns_server = srv, entry_status = ''success'',
                     ip_address = Some ip, entry_error = None\<rparr>])
            (log_call (DnsLookup domain) s)
      | Inl ex \<Rightarrow>
          dns_loop e domain srvs
            (acc @ [\<lparr>dns_server = srv, entry_status = ''failed'',
                     ip_address = None, entry_error = Some (str_exn ex)\<rparr>])
            (log_call (DnsLookup domain) s))"

definition check_dns_resolution :: "env \<Rightarrow> string option \<Rightarrow> state \<Rightarrow> dns_result \<times> state" where
  "check_dns_resolution e domain s =
     (let (res, s') = dns_loop e domain dns_servers [] s;
          success = length (filter (\<lambda>r. entry_status r = ''success'') res)
      in (\<lparr>overall_status = (if success > 0 then ''success'' else ''failed''),
           success_count = success,
           total_servers = length dns_servers,
           results = res\<rparr>, s'))"

definition check_http_response :: "env \<Rightarrow> string \<Rightarrow> state \<Rightarrow> http_result \<times> state" where
  "check_http_response e url s =
     (case requests_get e url of
        Response resp \<Rightarrow>
          (\<lparr>http_status = ''success'',
            status_code = Some (r_status_code resp),
            content_length = Some (r_content_length resp),
            redirected = Some (r_url resp \<noteq> url),
            final_url = (if r_url resp \<noteq> url then Some (r_url resp) else None),
            http_error = None\<rparr>, log_call (HttpGet url) s)
      | Timeout \<Rightarrow>
          (\<lparr>http_status = ''timeout'', status_code = None, content_length = None,
            redirected = None, final_url = None,
            http_error = Some ''Request timed out''\<rparr>, log_call (HttpGet url) s)
      | RequestException m \<Rightarrow>
          (\<lparr>http_status = ''error'', status_code = None, content_length = None,
            redirected = None, final_url = None,
            http_error = Some m\<rparr>, log_call (HttpGet url) s))"

definition check_port_connectivity :: "env \<Rightarrow> string option \<Rightarrow> nat \<Rightarrow> state
                                      \<Rightarrow> port_result \<times> state" where
  "check_port_connectivity e domain prt s =
     (case connect_ex e domain prt of
        Inr rc \<Rightarrow>
          (\<lparr>port_number = prt, port_status = (if rc = 0 then ''open'' else ''closed''),
            port_error = None\<rparr>, log_call (TcpConnect domain prt) s)
      | Inl ex \<Rightarrow>
          (\<lparr>port_number = prt, port_status = ''error'',
            port_error = Some (str_exn ex)\<rparr>, log_call (TcpConnect domain prt) s))"

subsection \<open>The local verdict and its summary\<close>

definition determine_overall_status :: "checks \<Rightarrow> string" where
  "determine_overall_status chk =
     (let dns_ok = (overall_status (c_dns chk) = ''success'');
          http_ok = (http_status (c_http chk) = ''success'');
          port_ok = (port_status (c_port chk) = ''open'')
      in if http_ok then ''up''
         else if dns_ok \<and> port_ok then ''partial''
         else if dns_ok then ''dns_only''
         else ''down'')"

text \<open>
  \<^verbatim>\<open>generate_status_summary\<close>: the list \<^verbatim>\<open>parts\<close> grows by three appends and is joined.
  Every HTTP probe result has a \<^verbatim>\<open>status\<close>, so the default of \<^verbatim>\<open>.get\<close> is never taken.
\<close>

definition generate_status_summary :: "checks \<Rightarrow> string" where
  "generate_status_summary chk =
     (let parts = [];
          parts = parts @ [if overall_status (c_dns chk) = ''success''
                           then ''DNS OK'' else ''DNS fail''];
          http_st = http_status (c_http chk);
          parts = parts @ [if http_st = ''success'' then ''HTTP OK'' else http_st];
          parts = parts @ [if port_status (c_port chk) = ''open''
                           then ''Port open'' else ''Port closed'']
      in join ''; '' parts)"

subsection \<open>The cache gateway\<close>

text \<open>\<^verbatim>\<open>timedelta(minutes=n)\<close> in microseconds.\<close>

definition minutes :: "int \<Rightarrow> int" where
  "minutes n = n * 60 * 1000000"

text \<open>
  \<^verbatim>\<open>d.timestamp()\<close> for a naive \<^verbatim>\<open>datetime\<close> \<open>t\<close>: Python reads the value as
  local time, so the epoch time is \<open>t\<close> less the offset of the process's time zone.
  \<^verbatim>\<open>int(x)\<close> then keeps the whole seconds, truncated towards zero.
\<close>

definition naive_timestamp :: "env \<Rightarrow> int \<Rightarrow> int" where
  "naive_timestamp e t = t - utc_offset e t"

definition whole_seconds :: "int \<Rightarrow> int" where
  "whole_seconds us = (if us \<ge> 0 then us div 1000000 else - ((- us) div 1000000))"

text \<open>The \<^verbatim>\<open>try\<close> block of \<^verbatim>\<open>get_cached_external_result\<close>.\<close>

definition get_cached_try :: "env \<Rightarrow> string \<Rightarrow> state \<Rightarrow> (exn + checks_map option) \<times> state" where
  "get_cached_try e url s =
     (let s1 = log_call (CacheGet url) s
      in case get_item_fails e url of
           Some ex \<Rightarrow> (Inl ex, s1)
         | None \<Rightarrow>
             (case cache_table s1 url of
                None \<Rightarrow> (Inr None, s1)
              | Some Malformed \<Rightarrow> (Inl (KeyError ''timestamp''), s1)
              | Some (Row item) \<Rightarrow>
                  (let now = utcnow e (ticks s1);
                       s2 = s1\<lparr>ticks := Suc (ticks s1)\<rparr>
                   in if now - ci_timestamp item < minutes 5
                      then (Inr (Some (ci_data item)), s2)
                      else (Inr None, s2))))"

definition get_cached_external_result :: "env \<Rightarrow> string \<Rightarrow> state \<Rightarrow> checks_map option \<times> state" where
  "get_cached_external_result e url s =
     (case get_cached_try e url s of
        (Inr r, s') \<Rightarrow> (r, s')
      | (Inl _, s') \<Rightarrow> (None, s'))"

text \<open>
  The \<^verbatim>\<open>try\<close> block of \<^verbatim>\<open>cache_external_result\<close>. When the resource cannot be
  created nothing else happens. Otherwise the item is built, with two clock readings:
  \<^verbatim>\<open>utcnow().isoformat()\<close> for \<^verbatim>\<open>timestamp\<close> and
  \<^verbatim>\<open>int((utcnow() + timedelta(minutes=10)).timestamp())\<close> for \<^verbatim>\<open>ttl\<close>, and
  \<^verbatim>\<open>put_item\<close> is called.
\<close>

definition cache_try :: "env \<Rightarrow> string \<Rightarrow> checks_map \<Rightarrow> state \<Rightarrow> (exn + unit) \<times> state" where
  "cache_try e url data s =
     (case put_item_fails e url of
        Some (ResourceFails ex) \<Rightarrow> (Inl ex, s)
      | failure \<Rightarrow>
          (let stamp = utcnow e (ticks s);
               expiry = whole_seconds
                          (naive_timestamp e (utcnow e (Suc (ticks s)) + minutes 10));
               s1 = log_call (CachePut url) (s\<lparr>ticks := Suc (Suc (ticks s))\<rparr>)
           in case failure of
                Some (PutItemFails ex) \<Rightarrow> (Inl ex, s1)
              | _ \<Rightarrow>
                  (Inr (),
                   s1\<lparr>cache_table := (cache_table s1)
                          (url \<mapsto> Row \<lparr>ci_data = stored_payload data,
                                       ci_timestamp = stamp, ci_ttl = expiry\<rparr>)\<rparr>)))"

definition cache_external_result :: "env \<Rightarrow> string \<Rightarrow> checks_map \<Rightarrow> state \<Rightarrow> state" where
  "cache_external_result e url data s = snd (cache_try e url data s)"

subsection \<open>The external observers\<close>

text \<open>
  Each observer parses the URL before its \<^verbatim>\<open>try\<close>, so a parse error leaves the
  function as an exception; everything after it is caught by the bare \<^verbatim>\<open>except\<close>.
\<close>

definition check_downforeveryoneorjustme :: "env \<Rightarrow> string \<Rightarrow> state
    \<Rightarrow> (exn + observer_result option) \<times> state" where
  "check_downforeveryoneorjustme e url s =
     (case urlparse e url of
        Inl ex \<Rightarrow> (Inl ex, s)
      | Inr p \<Rightarrow>
          (let req = ''https://downforeveryoneorjustme.com/check?domain='' @ p_netloc p;
               s1 = log_call (HttpGet req) s
           in case requests_get e req of
                Response r \<Rightarrow>
                  (let txt = lower (r_text r)
                   in if contains ''just you'' txt
                      then (Inr (Some (WithMessage ''up'' ''Site appears up'')), s1)
                      else if contains ''not just you'' txt
                      then (Inr (Some (WithMessage ''down'' ''Site appears down'')), s1)
                      else (Inr (Some (WithMessage ''unknown'' ''Could not determine'')), s1))
              | _ \<Rightarrow> (Inr None, s1)))"

definition check_isitdownrightnow :: "env \<Rightarrow> string \<Rightarrow> state
    \<Rightarrow> (exn + observer_result option) \<times> state" where
  "check_isitdownrightnow e url s =
     (case urlparse e url of
        Inl ex \<Rightarrow> (Inl ex, s)
      | Inr p \<Rightarrow>
          (let req = ''http://'' @ p_netloc p;
               s1 = log_call (HttpHead req) s
           in case requests_head e req of
                Response r \<Rightarrow>
                  (Inr (Some (WithStatusCode (if r_status_code r < 400 then ''up'' else ''down'')
                                (PyInt (r_status_code r)))), s1)
              | _ \<Rightarrow> (Inr (Some (WithError ''down'' ''Connection failed'')), s1)))"

fun websiteplanet_loop :: "env \<Rightarrow> string \<Rightarrow> string list \<Rightarrow> protocol_entry list \<Rightarrow> state
    \<Rightarrow> protocol_entry list \<times> state" where
  "websiteplanet_loop e domain [] acc s = (acc, s)"
| "websiteplanet_loop e domain (p # ps) acc s =
     (let req = p @ ''://'' @ domain;
          s1 = log_call (HttpGet req) s
      in case requests_get e req of
           Response r \<Rightarrow>
             websiteplanet_loop e domain ps
               (acc @ [\<lparr>pe_protocol = p,
                        pe_status = (if r_status_code r < 400 then ''up'' else ''down''),
                        pe_status_code = Some (PyInt (r_status_code r)), pe_error = None\<rparr>]) s1
         | _ \<Rightarrow>
             websiteplanet_loop e domain ps
               (acc @ [\<lparr>pe_protocol = p, pe_status = ''down'',
                        pe_status_code = None, pe_error = Some ''Connection failed''\<rparr>]) s1)"

definition check_websiteplanet :: "env \<Rightarrow> string \<Rightarrow> state
    \<Rightarrow> (exn + observer_result option) \<times> state" where
  "check_websiteplanet e url s =
     (case urlparse e url of
        Inl ex \<Rightarrow> (Inl ex, s)
      | Inr p \<Rightarrow>
          (let (res, s1) = websiteplanet_loop e (p_netloc p) [''https'', ''http''] [] s;
               up = filter (\<lambda>r. pe_status r = ''up'') res
           in if up \<noteq> [] then (Inr (Some (WithProtocols ''up'' res)), s1)
              else (Inr (Some (WithProtocols ''down'' res)), s1)))"

subsection \<open>The external aggregation\<close>

text \<open>\<^verbatim>\<open>d[k] = v\<close> on a dictionary kept as an association list in insertion order.\<close>

fun dict_set :: "'k \<Rightarrow> 'v \<Rightarrow> ('k \<times> 'v) list \<Rightarrow> ('k \<times> 'v) list" where
  "dict_set k v [] = [(k, v)]"
| "dict_set k v ((k', v') # d) = (if k' = k then (k, v) # d else (k', v') # dict_set k v d)"

text \<open>
  The body of the loop over \<^verbatim>\<open>as_completed\<close>, for the futures that are done within
  the budget: a returned \<open>None\<close> is skipped by \<^verbatim>\<open>if r\<close>, an exception of the future
  becomes an error entry.
\<close>

fun collect :: "((exn + observer_result option) \<times> string) list \<Rightarrow> checks_map \<Rightarrow> checks_map" where
  "collect [] chk = chk"
| "collect ((f, svc) # fs) chk =
     (case f of
        Inr (Some r) \<Rightarrow> collect fs (dict_set svc r chk)
      | Inr None \<Rightarrow> collect fs chk
      | Inl ex \<Rightarrow> collect fs (dict_set svc (WithError ''error'' (str_exn ex)) chk))"

text \<open>
  The fan-out of \<^verbatim>\<open>get_external_status_checks\<close>: the statements from
  \<^verbatim>\<open>checks = {}\<close> to the end of the \<^verbatim>\<open>with\<close> block. The three observers run in
  worker threads; the model runs them in the order of submission and iterates over the
  finished futures in that order, which fixes the order of the keys but not the
  mapping. When a future is not done at the deadline, \<^verbatim>\<open>as_completed\<close> raises
  \<^verbatim>\<open>TimeoutError\<close> after the finished ones have been handled; leaving the
  \<^verbatim>\<open>with\<close> block still waits for the workers, so their requests are made.
\<close>

definition run_observers :: "env \<Rightarrow> string \<Rightarrow> state \<Rightarrow> (exn + checks_map) \<times> state" where
  "run_observers e url s =
     (let (f1, s1) = check_downforeveryoneorjustme e url s;
          (f2, s2) = check_isitdownrightnow e url s1;
          (f3, s3) = check_websiteplanet e url s2;
          futures = [(f1, ''downforeveryoneorjustme''),
                     (f2, ''isitdownrightnow''),
                     (f3, ''websiteplanet'')];
          finished = filter (\<lambda>(f, svc). completes_in_budget e svc) futures;
          chk = collect finished []
      in if length finished < length futures then (Inl TimeoutError, s3)
         else (Inr chk, s3))"

text \<open>
  The \<^verbatim>\<open>try\<close> block of \<^verbatim>\<open>get_external_status_checks\<close>. \<^verbatim>\<open>if cached\<close> and
  \<^verbatim>\<open>if checks\<close> test for a dictionary that is neither \<open>None\<close> nor empty.
\<close>

definition get_external_try :: "env \<Rightarrow> string \<Rightarrow> state \<Rightarrow> (exn + checks_map option) \<times> state" where
  "get_external_try e url s =
     (let (cached, s1) = get_cached_external_result e url s
      in if cached \<noteq> None \<and> cached \<noteq> Some []
         then (Inr cached, s1)
         else
           (case run_observers e url s1 of
              (Inl ex, s2) \<Rightarrow> (Inl ex, s2)
            | (Inr chk, s2) \<Rightarrow>
                if chk \<noteq> []
                then (Inr (Some chk), cache_external_result e url chk s2)
                else (Inr (Some chk), s2)))"

definition get_external_status_checks :: "env \<Rightarrow> string \<Rightarrow> state \<Rightarrow> checks_map option \<times> state" where
  "get_external_status_checks e url s =
     (case get_external_try e url s of
        (Inr r, s') \<Rightarrow> (r, s')
      | (Inl _, s') \<Rightarrow> (None, s'))"

subsection \<open>The single-region check and its handler\<close>

text \<open>
  The result of \<^verbatim>\<open>check_website_status\<close>, without \<^verbatim>\<open>response_time_ms\<close> and
  \<^verbatim>\<open>timestamp\<close>; \<open>sr_external_checks\<close> is the key the handler adds.
\<close>

record site_result =
  sr_url :: string
  sr_domain :: "string option"
  sr_status :: string
  sr_region :: string
  sr_detailed_checks :: checks
  sr_summary :: string
  sr_external_checks :: "checks_map option"

definition check_website_status :: "env \<Rightarrow> string \<Rightarrow> state \<Rightarrow> (exn + site_result) \<times> state" where
  "check_website_status e url0 s =
     (let region = aws_region e;
          url = ensure_protocol url0
      in case urlparse e url of
           Inl ex \<Rightarrow> (Inl ex, s)
         | Inr parsed \<Rightarrow>
             (let host = parsed_hostname parsed
              in case parsed_port parsed of
                   Inl ex \<Rightarrow> (Inl ex, s)
                 | Inr po \<Rightarrow>
                     (let fallback = (if p_scheme parsed = ''https'' then 443 else 80);
                          prt = (case po of
                                   Some n \<Rightarrow> if n \<noteq> 0 then n else fallback
                                 | None \<Rightarrow> fallback);
                          (dns, s1) = check_dns_resolution e host s;
                          (http, s2) = check_http_response e url s1;
                          (port_chk, s3) = check_port_connectivity e host prt s2;
                          chk = \<lparr>c_dns = dns, c_http = http, c_port = port_chk\<rparr>;
                          overall = determine_overall_status chk
                      in (Inr \<lparr>sr_url = url, sr_domain = host, sr_status = overall,
                               sr_region = region, sr_detailed_checks = chk,
                               sr_summary = generate_status_summary chk,
                               sr_external_checks = None\<rparr>, s3))))"

text \<open>
  The event, as far as the handlers read it. \<open>BodyAbsent\<close> is a missing or empty
  \<^verbatim>\<open>body\<close>, \<open>BodyUnparsable\<close> one that \<^verbatim>\<open>json.loads\<close> refuses or that is not an
  object, \<open>BodyObject u\<close> an object with \<open>u\<close> under \<^verbatim>\<open>url\<close>.
\<close>

datatype body_field = BodyAbsent | BodyUnparsable | BodyObject "string option"

record event =
  ev_httpMethod :: "string option"
  ev_body :: body_field
  ev_url :: "string option"

datatype region_entry = Local site_result | Peer json_body

record multi_result =
  mr_url :: string
  mr_overall_status :: string
  regions_up :: nat
  total_regions :: nat
  mr_results :: "region_entry list"
  mr_analysis :: string

datatype response_body =
    EmptyBody
  | ErrorBody string
  | SiteBody site_result
  | MultiBody multi_result

text \<open>
  \<^verbatim>\<open>cors_response\<close>; the headers are the same for every response. The body goes
  through \<^verbatim>\<open>json.dumps\<close>, which raises \<^verbatim>\<open>TypeError\<close> on a \<^verbatim>\<open>Decimal\<close>: the
  numbers of external checks that came out of the cache.
\<close>

record response =
  statusCode :: nat
  resp_body :: response_body

definition site_holds_decimal :: "site_result \<Rightarrow> bool" where
  "site_holds_decimal r =
     (case sr_external_checks r of
        None \<Rightarrow> False
      | Some m \<Rightarrow> list_ex (\<lambda>(svc, x). holds_decimal x) m)"

fun json_dumps_fails :: "response_body \<Rightarrow> bool" where
  "json_dumps_fails EmptyBody = False"
| "json_dumps_fails (ErrorBody m) = False"
| "json_dumps_fails (SiteBody r) = site_holds_decimal r"
| "json_dumps_fails (MultiBody m) =
     list_ex (\<lambda>x. case x of Local r \<Rightarrow> site_holds_decimal r | Peer b \<Rightarrow> False)
       (mr_results m)"

definition cors_response :: "nat \<Rightarrow> response_body \<Rightarrow> exn + response" where
  "cors_response code b =
     (if json_dumps_fails b
      then Inl (TypeError ''Object of type Decimal is not JSON serializable'')
      else Inr \<lparr>statusCode = code, resp_body = b\<rparr>)"




subsection \<open>The multi-region orchestrator\<close>

text \<open>\<^verbatim>\<open>str(n)\<close> for a natural number.\<close>

fun str_nat :: "nat \<Rightarrow> string" where
  "str_nat n = (if n < 10 then [char_of (48 + n)]
                else str_nat (n div 10) @ [char_of (48 + n mod 10)])"

text \<open>\<^verbatim>\<open>x.get('status')\<close>: an \<^verbatim>\<open>AttributeError\<close> on a reply that is not an object.\<close>

fun get_status :: "region_entry \<Rightarrow> exn + string option" where
  "get_status (Local r) = Inr (Some (sr_status r))"
| "get_status (Peer (JObject st)) = Inr st"
| "get_status (Peer JNonObject) = Inl (AttributeError ''get'')"

text \<open>\<^verbatim>\<open>sum(1 for x in xs if x.get('status') in ('up', 'partial'))\<close>.\<close>

fun count_up :: "region_entry list \<Rightarrow> nat \<Rightarrow> exn + nat" where
  "count_up [] acc = Inr acc"
| "count_up (x # xs) acc =
     (case get_status x of
        Inl ex \<Rightarrow> Inl ex
      | Inr st \<Rightarrow> count_up xs (if st \<in> set [Some ''up'', Some ''partial''] then acc + 1 else acc))"

definition analyze_multi_region_results :: "region_entry list \<Rightarrow> exn + string" where
  "analyze_multi_region_results res =
     (if res = [] then Inr ''No results to analyze''
      else (let total = length res
            in case count_up res 0 of
                 Inl ex \<Rightarrow> Inl ex
               | Inr up \<Rightarrow>
                   if up = total then Inr ''Website accessible from all tested regions''
                   else if up = 0 then Inr ''Website appears down globally''
                   else Inr (''Mixed: '' @ str_nat up @ ''/'' @ str_nat total
                               @ '' regions can reach it'')))"

text \<open>
  The loop over the peer regions: a reply is kept when its \<^verbatim>\<open>statusCode\<close> is 200 and
  its body parses; every exception inside the loop body is caught and printed.
\<close>

fun invoke_loop :: "env \<Rightarrow> string \<Rightarrow> string list \<Rightarrow> json_body list \<Rightarrow> state
    \<Rightarrow> json_body list \<times> state" where
  "invoke_loop e url [] acc s = (acc, s)"
| "invoke_loop e url (r # rs) acc s =
     (if strip r \<noteq> []
      then (let fname = ''website-status-checker-'' @ strip r;
                s1 = log_call (LambdaInvoke fname) s
            in case invoke e fname url of
                 Payload (Some code) (Some b) \<Rightarrow>
                   if code = 200 then invoke_loop e url rs (acc @ [b]) s1
                   else invoke_loop e url rs acc s1
               | _ \<Rightarrow> invoke_loop e url rs acc s1)
      else invoke_loop e url rs acc s)"

text \<open>
  The block under \<^verbatim>\<open>if other_regions and other_regions[0]\<close>: creating the Lambda
  client is outside the loop's \<^verbatim>\<open>try\<close>, so its exception leaves the block.
\<close>

definition collect_peers :: "env \<Rightarrow> string \<Rightarrow> state \<Rightarrow> (exn + json_body list) \<times> state" where
  "collect_peers e url s =
     (let regions = split_chr CHR '','' (other_regions_var e)
      in if regions \<noteq> [] \<and> hd regions \<noteq> []
         then (case lambda_client_fails e of
                 Some ex \<Rightarrow> (Inl ex, s)
               | None \<Rightarrow> (case invoke_loop e url regions [] s of
                            (other_results, s') \<Rightarrow> (Inr other_results, s')))
         else (Inr [], s))"

text \<open>
  The statements from \<^verbatim>\<open>up = sum(...)\<close> to the \<^verbatim>\<open>return\<close>: the counts, the overall
  status and the response (without its \<^verbatim>\<open>timestamp\<close>).
\<close>

definition consensus :: "string \<Rightarrow> region_entry list \<Rightarrow> exn + response" where
  "consensus url all_res =
     (case count_up all_res 0 of
        Inl ex \<Rightarrow> Inl ex
      | Inr up \<Rightarrow>
          (let total = length all_res;
               overall = (if up = total then ''up''
                          else if up > 0 then ''mixed''
                          else ''down'')
           in case analyze_multi_region_results all_res of
                Inl ex \<Rightarrow> Inl ex
              | Inr analysis \<Rightarrow>
                  cors_response 200 (MultiBody
                    \<lparr>mr_url = url, mr_overall_status = overall,
                     regions_up = up, total_regions = total,
                     mr_results = all_res, mr_analysis = analysis\<rparr>)))"

definition multi_region_try :: "env \<Rightarrow> event \<Rightarrow> state \<Rightarrow> (exn + response) \<times> state" where
  "multi_region_try e ev s =
     (case ev_body ev of
        BodyUnparsable \<Rightarrow> (Inl (ValueError ''body''), s)
      | b \<Rightarrow>
          (case (case b of BodyObject u \<Rightarrow> u | _ \<Rightarrow> None) of
             None \<Rightarrow> (cors_response 400 (ErrorBody ''URL is required''), s)
           | Some url \<Rightarrow>
               if url = [] then (cors_response 400 (ErrorBody ''URL is required''), s)
               else
                 (case check_website_status e url s of
                    (Inl ex, s1) \<Rightarrow> (Inl ex, s1)
                  | (Inr loc, s1) \<Rightarrow>
                      (case collect_peers e url s1 of
                         (Inl ex, s2) \<Rightarrow> (Inl ex, s2)
                       | (Inr other_results, s2) \<Rightarrow>
                           (consensus url (Local loc # map Peer other_results), s2)))))"

definition multi_region_check :: "env \<Rightarrow> event \<Rightarrow> state \<Rightarrow> (exn + response) \<times> state" where
  "multi_region_check e ev s =
     (case multi_region_try e ev s of
        (Inr r, s') \<Rightarrow> (Inr r, s')
      | (Inl _, s') \<Rightarrow> (cors_response 500 (ErrorBody ''Internal server error''), s'))"

subsection \<open>Notions of the specification\<close>

text \<open>
  What the statements below measure the program against, written from the words of the
  specification and not from the program. The status of a collected region result is
  the verdict of the local check or the text a peer's reply has under \<^verbatim>\<open>status\<close>; a
  result counts as reachable when that status is \<^verbatim>\<open>up\<close> or \<^verbatim>\<open>partial\<close>.
  \<open>kept_replies\<close> lists, in the order of the configured names, the bodies of the
  peers that were invoked (a name that is not blank) and answered with
  \<^verbatim>\<open>statusCode\<close> 200 and a body that parses.
\<close>

fun region_status :: "region_entry \<Rightarrow> string option" where
  "region_status (Local r) = Some (sr_status r)"
| "region_status (Peer (JObject st)) = st"
| "region_status (Peer JNonObject) = None"

definition reachable :: "region_entry \<Rightarrow> bool" where
  "reachable x = (region_status x = Some ''up'' \<or> region_status x = Some ''partial'')"

definition kept_replies :: "env \<Rightarrow> string \<Rightarrow> string list \<Rightarrow> json_body list" where
  "kept_replies e url rs =
     concat (map (\<lambda>r. if strip r = [] then []
                       else (case invoke e (''website-status-checker-'' @ strip r) url of
                               Payload (Some code) (Some b) \<Rightarrow> if code = 200 then [b] else []
                             | _ \<Rightarrow> [])) rs)"


subsection \<open>Concrete worlds\<close>

text \<open>
  \<open>offline_env\<close>: no name resolves, no request gets through, every connection is
  refused; the table and the clock work, every worker finishes in time.
  \<open>site_up_env\<close>: the same, but \<^verbatim>\<open>example.com\<close> resolves and answers 200 on both
  protocols (the observer page \<^verbatim>\<open>downforeveryoneorjustme.com\<close> stays unreachable).
  The process runs in UTC. None of the URLs of these worlds has a square bracket or a
  non-ASCII character, so the two validations of the parser are never asked; they take
  \<^verbatim>\<open>::1\<close> for the only address literal.
\<close>

definition offline_env :: env where
  "offline_env =
     \<lparr>bracketed_host_ok = (\<lambda>h. h = ''::1''),
      nfkc_ok = (\<lambda>n. True),
      gethostbyname = (\<lambda>srv d. Inl (OtherException ''Name or service not known'')),
      requests_get = (\<lambda>u. RequestException ''Connection failed''),
      requests_head = (\<lambda>u. RequestException ''Connection failed''),
      connect_ex = (\<lambda>h p. Inr 111),
      completes_in_budget = (\<lambda>svc. True),
      get_item_fails = (\<lambda>u. None),
      put_item_fails = (\<lambda>u. None),
      utcnow = (\<lambda>n. 1700000000000000 + int n),
      utc_offset = (\<lambda>t. 0),
      aws_region = ''us-east-1'',
      other_regions_var = [],
      lambda_client_fails = None,
      invoke = (\<lambda>f u. InvokeRaises (OtherException ''no such function''))\<rparr>"

definition example_reply :: http_response where
  "example_reply = \<lparr>r_status_code = 200, r_text = ''ok'', r_content_length = 2,
                     r_url = ''https://example.com''\<rparr>"

definition site_up_env :: env where
  "site_up_env =
     offline_env
       \<lparr>gethostbyname := (\<lambda>srv d. if d = Some ''example.com'' then Inr ''93.184.216.34''
                                  else Inl (OtherException ''Name or service not known'')),
        requests_get := (\<lambda>u. if u \<in> set [''https://example.com'', ''http://example.com'']
                               then Response example_reply
                               else RequestException ''Connection failed''),
        requests_head := (\<lambda>u. if u = ''http://example.com'' then Response example_reply
                                else RequestException ''Connection failed''),
        connect_ex := (\<lambda>h p. if h = Some ''example.com'' then Inr 0 else Inr 111)\<rparr>"

text \<open>
  Three peer regions are configured: one answers \<^verbatim>\<open>partial\<close>, one cannot be invoked,
  one answers \<^verbatim>\<open>down\<close>.
\<close>

definition three_peers_env :: env where
  "three_peers_env =
     site_up_env
       \<lparr>other_regions_var := ''eu-west-1, ap-south-1,us-west-2'',
        invoke := (\<lambda>f u. if f = ''website-status-checker-eu-west-1''
                           then Payload (Some 200) (Some (JObject (Some ''partial'')))
                           else if f = ''website-status-checker-us-west-2''
                           then Payload (Some 200) (Some (JObject (Some ''down'')))
                           else InvokeRaises (OtherException ''no such function''))\<rparr>"

text \<open>The same world with the process in a time zone one hour east of UTC.\<close>

definition berlin_env :: env where
  "berlin_env = site_up_env\<lparr>utc_offset := (\<lambda>t. 3600000000)\<rparr>"

definition slow_observer_env :: env where
  "slow_observer_env = site_up_env\<lparr>completes_in_budget := (\<lambda>svc. svc \<noteq> ''websiteplanet'')\<rparr>"

definition storage_down_env :: env where
  "storage_down_env =
     site_up_env\<lparr>get_item_fails := (\<lambda>u. Some (ClientError ''Requested resource not found'')),
                 put_item_fails := (\<lambda>u. Some (PutItemFails
                                                (ClientError ''Requested resource not found'')))\<rparr>"


definition empty_state :: state where
  "empty_state = \<lparr>cache_table = (\<lambda>u. None), ticks = 0, calls = []\<rparr>"

text \<open>
  A table with one row for \<^verbatim>\<open>https://example.com\<close>, written \<open>age\<close> microseconds
  before the first clock reading of the worlds above.
\<close>

definition cached_state :: "checks_map \<Rightarrow> int \<Rightarrow> state" where
  "cached_state payload age =
     \<lparr>cache_table =
        (\<lambda>u. if u = ''https://example.com''
              then Some (Row \<lparr>ci_data = payload, ci_timestamp = 1700000000000000 - age,
                              ci_ttl = whole_seconds (1700000000000000 - age + minutes 10)\<rparr>)
              else None),
      ticks = 0, calls = []\<rparr>"

definition seen_up :: checks_map where
  "seen_up = [(''isitdownrightnow'', WithStatusCode ''up'' (PyDecimal 200))]"


definition post_event :: "string \<Rightarrow> event" where
  "post_event u = \<lparr>ev_httpMethod = Some ''POST'', ev_body = BodyObject (Some u), ev_url = None\<rparr>"




text \<open>Probe results for the verdict: the resolvers failed, the port is closed, HTTP answered 503.\<close>

definition dns_all_failed :: dns_result where
  "dns_all_failed = \<lparr>overall_status = ''failed'', success_count = 0, total_servers = 3,
                      results = []\<rparr>"

definition http_answered_503 :: http_result where
  "http_answered_503 = \<lparr>http_status = ''success'', status_code = Some 503,
                         content_length = Some 0, redirected = Some False,
                         final_url = None, http_error = None\<rparr>"

definition http_timed_out :: http_result where
  "http_timed_out = \<lparr>http_status = ''timeout'', status_code = None,
                      content_length = None, redirected = None,
                      final_url = None, http_error = Some ''Request timed out''\<rparr>"

definition port_closed :: port_result where
  "port_closed = \<lparr>port_number = 443, port_status = ''closed'', port_error = None\<rparr>"

definition port_failed :: port_result where
  "port_failed = \<lparr>port_number = 443, port_status = ''error'',
                   port_error = Some ''Name or service not known''\<rparr>"

section \<open>Properties\<close>

subsection \<open>The local verdict\<close>

text \<open>
  Claim C1. For every combination of the three probe results,
  \<^verbatim>\<open>determine_overall_status\<close> returns \<^verbatim>\<open>up\<close> if the HTTP probe's status is
  \<^verbatim>\<open>success\<close> (the status code is not read), otherwise \<^verbatim>\<open>partial\<close> if the DNS
  overall status is \<^verbatim>\<open>success\<close> and the port status is \<^verbatim>\<open>open\<close>, otherwise
  \<^verbatim>\<open>dns_only\<close> if the DNS overall status is \<^verbatim>\<open>success\<close>, and \<^verbatim>\<open>down\<close>
  otherwise; the four branches are tried in this order.
\<close>

theorem determine_overall_status_precedence:
  "determine_overall_status chk =
     (if http_status (c_http chk) = ''success'' then ''up''
      else if overall_status (c_dns chk) = ''success'' \<and> port_status (c_port chk) = ''open''
      then ''partial''
      else if overall_status (c_dns chk) = ''success'' then ''dns_only''
      else ''down'')"
  by (simp add: determine_overall_status_def)

text \<open>All resolvers failed, the port is closed, HTTP answered 503: the verdict is \<^verbatim>\<open>up\<close>.\<close>

theorem determine_overall_status_precedence_witness:
  "determine_overall_status
     \<lparr>c_dns = dns_all_failed, c_http = http_answered_503, c_port = port_closed\<rparr> = ''up''"
  using determine_overall_status_precedence
    [of "\<lparr>c_dns = dns_all_failed, c_http = http_answered_503, c_port = port_closed\<rparr>"]
  by (simp add: http_answered_503_def)

subsection \<open>The summary line\<close>

text \<open>
  Claim C10. For every combination of probe results, \<^verbatim>\<open>generate_status_summary\<close>
  renders three segments joined by \<^verbatim>\<open>"; "\<close> in the order DNS, HTTP, port. The port
  segment is \<^verbatim>\<open>Port open\<close> exactly when the port status is \<^verbatim>\<open>open\<close> and
  \<^verbatim>\<open>Port closed\<close> for every other port status, \<^verbatim>\<open>error\<close> included; the DNS segment
  is \<^verbatim>\<open>DNS fail\<close> for every status but \<^verbatim>\<open>success\<close>. So the summary of a port probe
  that failed equals the summary of a closed port.
\<close>

theorem generate_status_summary_segments:
  "generate_status_summary chk =
     (if overall_status (c_dns chk) = ''success'' then ''DNS OK'' else ''DNS fail'') @ ''; '' @
     (if http_status (c_http chk) = ''success'' then ''HTTP OK'' else http_status (c_http chk))
       @ ''; '' @
     (if port_status (c_port chk) = ''open'' then ''Port open'' else ''Port closed'')
   \<and> generate_status_summary (chk\<lparr>c_port := (c_port chk)\<lparr>port_status := ''error''\<rparr>\<rparr>)
       = generate_status_summary (chk\<lparr>c_port := (c_port chk)\<lparr>port_status := ''closed''\<rparr>\<rparr>)"
  by (simp add: generate_status_summary_def)

theorem generate_status_summary_segments_witness:
  "generate_status_summary
     \<lparr>c_dns = dns_all_failed, c_http = http_timed_out, c_port = port_failed\<rparr>
     = ''DNS fail; timeout; Port closed''"
  using generate_status_summary_segments
    [of "\<lparr>c_dns = dns_all_failed, c_http = http_timed_out, c_port = port_failed\<rparr>"]
  by (simp add: dns_all_failed_def http_timed_out_def port_failed_def)

subsection \<open>The DNS probe\<close>

text \<open>The entry the loop body appends for one resolver label.\<close>

lemma dns_loop_entries:
  "fst (dns_loop e domain srvs acc s) =
     acc @ map (\<lambda>srv. case gethostbyname e srv domain of
                         Inr ip \<Rightarrow> \<lparr>dns_server = srv, entry_status = ''success'',
                                    ip_address = Some ip, entry_error = None\<rparr>
                       | Inl ex \<Rightarrow> \<lparr>dns_server = srv, entry_status = ''failed'',
                                    ip_address = None, entry_error = Some (str_exn ex)\<rparr>) srvs"
  by (induction srvs arbitrary: acc s) (auto split: sum.splits)

lemma dns_loop_calls:
  "calls (snd (dns_loop e domain srvs acc s)) =
     calls s @ replicate (length srvs) (DnsLookup domain)"
  by (induction srvs arbitrary: acc s)
     (auto simp: log_call_def replicate_append_same split: sum.splits)

lemma dns_loop_keeps:
  "cache_table (snd (dns_loop e domain srvs acc s)) = cache_table s \<and>
   ticks (snd (dns_loop e domain srvs acc s)) = ticks s"
  by (induction srvs arbitrary: acc s) (auto simp: log_call_def split: sum.splits)

text \<open>
  Claim C6. \<^verbatim>\<open>check_dns_resolution\<close> returns a result for every outcome of the three
  lookups, also when each of them raises: no exception leaves the loop body. In every
  result \<open>success_count\<close> is at most \<open>total_servers\<close> (which is 3, as is the number of
  entries), it is the number of lookups that returned, and \<open>overall_status\<close> is
  \<^verbatim>\<open>success\<close> if and only if \<open>success_count\<close> is greater than zero (and
  \<^verbatim>\<open>failed\<close> if and only if it is zero).
\<close>

theorem check_dns_resolution_invariant:
  "success_count (fst (check_dns_resolution e domain s))
     \<le> total_servers (fst (check_dns_resolution e domain s)) \<and>
   (overall_status (fst (check_dns_resolution e domain s)) = ''success''
      \<longleftrightarrow> success_count (fst (check_dns_resolution e domain s)) > 0) \<and>
   (overall_status (fst (check_dns_resolution e domain s)) = ''failed''
      \<longleftrightarrow> success_count (fst (check_dns_resolution e domain s)) = 0) \<and>
   total_servers (fst (check_dns_resolution e domain s)) = 3 \<and>
   length (results (fst (check_dns_resolution e domain s))) = 3 \<and>
   success_count (fst (check_dns_resolution e domain s))
     = length (filter (\<lambda>srv. \<not> isl (gethostbyname e srv domain)) dns_servers)"
proof -
  have status: "entry_status (case r of
        Inr ip \<Rightarrow> \<lparr>dns_server = srv, entry_status = ''success'',
                   ip_address = Some ip, entry_error = None\<rparr>
      | Inl ex \<Rightarrow> \<lparr>dns_server = srv, entry_status = ''failed'',
                   ip_address = None, entry_error = Some (str_exn ex)\<rparr>) = ''success''
      \<longleftrightarrow> \<not> isl r" for r :: "exn + string" and srv
    by (cases r) simp_all
  have count: "length (filter (\<lambda>srv. \<not> isl (gethostbyname e srv domain)) dns_servers) \<le> 3"
    using length_filter_le [of _ dns_servers] by (simp add: dns_servers_def)
  show ?thesis
    using count
    by (simp add: check_dns_resolution_def split_def Let_def dns_loop_entries
          filter_map comp_def status)
       (simp add: dns_servers_def)
qed

text \<open>With every lookup failing the probe still returns: three entries, none successful.\<close>

theorem check_dns_resolution_invariant_witness:
  "overall_status (fst (check_dns_resolution offline_env (Some ''example.com'') empty_state))
     = ''failed'' \<and>
   success_count (fst (check_dns_resolution offline_env (Some ''example.com'') empty_state)) = 0 \<and>
   total_servers (fst (check_dns_resolution offline_env (Some ''example.com'') empty_state)) = 3 \<and>
   length (results (fst (check_dns_resolution offline_env (Some ''example.com'') empty_state))) = 3"
  using check_dns_resolution_invariant [of offline_env "Some ''example.com''" empty_state]
  by (simp add: offline_env_def dns_servers_def)

subsection \<open>The cache gateway\<close>

lemma whole_seconds_lifetime:
  "0 \<le> us \<Longrightarrow> whole_seconds (us + minutes 10) = us div 1000000 + 600"
  by (simp add: whole_seconds_def minutes_def)

text \<open>
  Claim C7. The cache read returns a payload only if the table access succeeds, a
  well-formed row is stored under the URL and the clock reading minus the row's write
  timestamp is less than five minutes; the payload is then the row's. In every other
  case it returns no payload: a storage-layer exception (raised in the \<^verbatim>\<open>try\<close>
  block, caught by the function), no row, a row that cannot be read, a row as old as
  the window or older. The function has no exception branch, and it leaves the table
  as it is.
\<close>

theorem get_cached_external_result_fresh_only:
  "(fst (get_cached_external_result e url s) = Some payload \<longleftrightarrow>
      get_item_fails e url = None \<and>
      (\<exists>item. cache_table s url = Some (Row item) \<and>
              utcnow e (ticks s) - ci_timestamp item < minutes 5 \<and> ci_data item = payload)) \<and>
   (\<forall>ex. get_item_fails e url = Some ex \<longrightarrow>
      fst (get_cached_try e url s) = Inl ex \<and> fst (get_cached_external_result e url s) = None) \<and>
   (cache_table s url = None \<longrightarrow> fst (get_cached_external_result e url s) = None) \<and>
   (cache_table s url = Some Malformed \<longrightarrow> fst (get_cached_external_result e url s) = None) \<and>
   (\<forall>item. cache_table s url = Some (Row item) \<and>
            minutes 5 \<le> utcnow e (ticks s) - ci_timestamp item \<longrightarrow>
      fst (get_cached_external_result e url s) = None) \<and>
   minutes 5 = 300 * 1000000 \<and>
   cache_table (snd (get_cached_external_result e url s)) = cache_table s"
  by (auto simp: get_cached_external_result_def get_cached_try_def log_call_def Let_def
                 minutes_def
           split: option.splits row.splits prod.splits sum.splits if_splits)

text \<open>
  A row one microsecond inside the window is returned; a row exactly five minutes old
  is not; a fresh row behind a failing table access is not.
\<close>

theorem get_cached_external_result_fresh_only_witness:
  "fst (get_cached_external_result site_up_env ''https://example.com''
          (cached_state seen_up 299999999)) = Some seen_up \<and>
   fst (get_cached_external_result site_up_env ''https://example.com''
          (cached_state seen_up 300000000)) = None \<and>
   fst (get_cached_external_result storage_down_env ''https://example.com''
          (cached_state seen_up 0)) = None"
  using get_cached_external_result_fresh_only
          [of site_up_env "''https://example.com''" "cached_state seen_up 299999999" seen_up]
        get_cached_external_result_fresh_only
          [of site_up_env "''https://example.com''" "cached_state seen_up 300000000" seen_up]
        get_cached_external_result_fresh_only
          [of storage_down_env "''https://example.com''" "cached_state seen_up 0" seen_up]
  by (simp add: site_up_env_def offline_env_def storage_down_env_def cached_state_def minutes_def)


lemma cache_write_expiry_utc:
  assumes "utc_offset e (utcnow e (Suc (ticks s)) + minutes 10) = 0"
      and "0 \<le> utcnow e (Suc (ticks s))"
  shows "whole_seconds (naive_timestamp e (utcnow e (Suc (ticks s)) + minutes 10))
           = utcnow e (Suc (ticks s)) div 1000000 + 600"
  using assms by (simp add: naive_timestamp_def whole_seconds_lifetime)


text \<open>
  Claim C8. The claim asks for an expiry of now plus ten minutes, strictly beyond the
  five-minute read window. The write computes it as
  \<^verbatim>\<open>int((datetime.utcnow() + timedelta(minutes=10)).timestamp())\<close>, and
  \<^verbatim>\<open>timestamp()\<close> reads the naive UTC value as local time. With the process one hour
  east of UTC, a write at 1700000000 s stores that write timestamp and the expiry
  1699997000: fifty minutes before the write, not ten minutes after it. (In UTC the
  expiry is now plus 600 s, by \<open>cache_write_expiry_utc\<close>; the payload, the write
  timestamp and the swallowing of storage errors are as the claim says.)
\<close>

theorem cache_ttl_follows_time_zone:
  "cache_table (cache_external_result berlin_env ''https://example.com'' seen_up empty_state)
     ''https://example.com''
     = Some (Row \<lparr>ci_data = seen_up, ci_timestamp = 1700000000000000,
                  ci_ttl = 1699997000\<rparr>)"
  by code_simp

subsection \<open>The external observers and their aggregation\<close>

lemma dfeojm_parsed:
  assumes "urlparse e url = Inr p"
  shows "snd (check_downforeveryoneorjustme e url s)
           = log_call (HttpGet (''https://downforeveryoneorjustme.com/check?domain='' @ p_netloc p)) s"
    and "(\<exists>r. requests_get e (''https://downforeveryoneorjustme.com/check?domain='' @ p_netloc p) = Response r)
           \<Longrightarrow> \<exists>st msg. fst (check_downforeveryoneorjustme e url s) = Inr (Some (WithMessage st msg)) \<and> st \<noteq> ''error''"
    and "(\<forall>r. requests_get e (''https://downforeveryoneorjustme.com/check?domain='' @ p_netloc p) \<noteq> Response r)
           \<Longrightarrow> fst (check_downforeveryoneorjustme e url s) = Inr None"
  using assms
  by (auto simp: check_downforeveryoneorjustme_def Let_def split: http_outcome.splits)

lemma isitdown_parsed:
  assumes "urlparse e url = Inr p"
  shows "snd (check_isitdownrightnow e url s) = log_call (HttpHead (''http://'' @ p_netloc p)) s"
    and "\<exists>r. fst (check_isitdownrightnow e url s) = Inr (Some r) \<and> obs_status r \<noteq> ''error''"
    and "(\<forall>r. requests_head e (''http://'' @ p_netloc p) \<noteq> Response r)
           \<Longrightarrow> fst (check_isitdownrightnow e url s) = Inr (Some (WithError ''down'' ''Connection failed''))"
  using assms
  by (auto simp: check_isitdownrightnow_def Let_def split: http_outcome.splits)

lemma websiteplanet_parsed:
  assumes "urlparse e url = Inr p"
  shows "snd (check_websiteplanet e url s)
           = log_call (HttpGet (''http://'' @ p_netloc p)) (log_call (HttpGet (''https://'' @ p_netloc p)) s)"
    and "\<exists>st ps. fst (check_websiteplanet e url s) = Inr (Some (WithProtocols st ps)) \<and> st \<noteq> ''error''"
    and "(\<forall>r. requests_get e (''https://'' @ p_netloc p) \<noteq> Response r) \<Longrightarrow>
         (\<forall>r. requests_get e (''http://'' @ p_netloc p) \<noteq> Response r) \<Longrightarrow>
         fst (check_websiteplanet e url s) = Inr (Some (WithProtocols ''down''
            [\<lparr>pe_protocol = ''https'', pe_status = ''down'', pe_status_code = None, pe_error = Some ''Connection failed''\<rparr>,
             \<lparr>pe_protocol = ''http'', pe_status = ''down'', pe_status_code = None, pe_error = Some ''Connection failed''\<rparr>]))"
  using assms
  by (auto simp: check_websiteplanet_def Let_def split: http_outcome.splits)

lemma observers_unparsed:
  assumes "urlparse e url = Inl ex"
  shows "check_downforeveryoneorjustme e url s = (Inl ex, s)"
    and "check_isitdownrightnow e url s = (Inl ex, s)"
    and "check_websiteplanet e url s = (Inl ex, s)"
  using assms
  by (simp_all add: check_downforeveryoneorjustme_def check_isitdownrightnow_def check_websiteplanet_def)


lemma run_observers_parsed_state:
  assumes "urlparse e url = Inr p"
  shows "calls (snd (run_observers e url s)) =
           calls s @ [HttpGet (''https://downforeveryoneorjustme.com/check?domain='' @ p_netloc p),
                      HttpHead (''http://'' @ p_netloc p),
                      HttpGet (''https://'' @ p_netloc p),
                      HttpGet (''http://'' @ p_netloc p)]"
    and "cache_table (snd (run_observers e url s)) = cache_table s"
    and "ticks (snd (run_observers e url s)) = ticks s"
  using dfeojm_parsed(1) [OF assms] isitdown_parsed(1) [OF assms]
        websiteplanet_parsed(1) [OF assms]
  by (simp_all add: run_observers_def split_def Let_def log_call_def)

lemma run_observers_timeout:
  assumes "\<not> (completes_in_budget e ''downforeveryoneorjustme'' \<and>
              completes_in_budget e ''isitdownrightnow'' \<and>
              completes_in_budget e ''websiteplanet'')"
  shows "fst (run_observers e url s) = Inl TimeoutError"
  using assms by (auto simp: run_observers_def split_def Let_def)

lemma run_observers_done:
  assumes "completes_in_budget e ''downforeveryoneorjustme''"
      and "completes_in_budget e ''isitdownrightnow''"
      and "completes_in_budget e ''websiteplanet''"
  shows "fst (run_observers e url s) =
           Inr (collect [(fst (check_downforeveryoneorjustme e url s), ''downforeveryoneorjustme''),
                         (fst (check_isitdownrightnow e url (snd (check_downforeveryoneorjustme e url s))),
                          ''isitdownrightnow''),
                         (fst (check_websiteplanet e url
                                 (snd (check_isitdownrightnow e url
                                         (snd (check_downforeveryoneorjustme e url s))))),
                          ''websiteplanet'')] [])"
  using assms by (simp add: run_observers_def split_def Let_def)

lemma get_external_miss:
  assumes "fst (get_cached_external_result e url s) = None \<or> fst (get_cached_external_result e url s) = Some []"
  shows "fst (get_external_status_checks e url s) =
           (case fst (run_observers e url (snd (get_cached_external_result e url s))) of
              Inr chk \<Rightarrow> Some chk | Inl ex \<Rightarrow> None)"
  using assms
  by (auto simp: get_external_status_checks_def get_external_try_def split_def Let_def
           split: sum.splits prod.splits)


lemma dict_set_nonempty: "dict_set k v d \<noteq> []"
  by (cases "(k, v, d)" rule: dict_set.cases) simp_all

lemma collect_keeps_nonempty: "acc \<noteq> [] \<Longrightarrow> collect fs acc \<noteq> []"
proof (induction fs arbitrary: acc)
  case Nil
  then show ?case by simp
next
  case (Cons a fs)
  obtain g name where a: "a = (g, name)" by (cases a)
  show ?case
  proof (cases g)
    case (Inl ex)
    then show ?thesis using a Cons.IH [OF dict_set_nonempty] by simp
  next
    case (Inr r)
    then show ?thesis
      using a Cons.IH [OF dict_set_nonempty] Cons.IH [OF Cons.prems] by (cases r) simp_all
  qed
qed

lemma collect_head_nonempty: "f \<noteq> Inr None \<Longrightarrow> collect ((f, svc) # fs) acc \<noteq> []"
proof (cases f)
  case (Inl ex)
  then show ?thesis using collect_keeps_nonempty [OF dict_set_nonempty] by simp
next
  case (Inr r)
  assume "f \<noteq> Inr None"
  then obtain v where "r = Some v" using Inr by (cases r) auto
  then show ?thesis using Inr collect_keeps_nonempty [OF dict_set_nonempty] by simp
qed

lemma collect_second_nonempty:
  "f2 \<noteq> Inr None \<Longrightarrow> collect [(f1, n1), (f2, n2), (f3, n3)] [] \<noteq> []"
proof (cases f1)
  case (Inl ex)
  assume "f2 \<noteq> Inr None"
  then show ?thesis using Inl collect_head_nonempty [of f2 n2 "[(f3, n3)]"] by simp
next
  case (Inr r)
  assume "f2 \<noteq> Inr None"
  then show ?thesis using Inr collect_head_nonempty [of f2 n2 "[(f3, n3)]"] by (cases r) simp_all
qed

lemma isitdown_never_none: "fst (check_isitdownrightnow e url s) \<noteq> Inr None"
  by (simp add: check_isitdownrightnow_def Let_def split: sum.splits http_outcome.splits)

lemma run_observers_nonempty: "fst (run_observers e url s) \<noteq> Inr []"
proof (cases "completes_in_budget e ''downforeveryoneorjustme'' \<and>
              completes_in_budget e ''isitdownrightnow'' \<and>
              completes_in_budget e ''websiteplanet''")
  case True
  have "collect [(fst (check_downforeveryoneorjustme e url s), ''downforeveryoneorjustme''),
                 (fst (check_isitdownrightnow e url (snd (check_downforeveryoneorjustme e url s))),
                  ''isitdownrightnow''),
                 (fst (check_websiteplanet e url
                         (snd (check_isitdownrightnow e url
                                 (snd (check_downforeveryoneorjustme e url s))))),
                  ''websiteplanet'')] [] \<noteq> []"
    by (rule collect_second_nonempty [OF isitdown_never_none])
  then show ?thesis
    using True by (simp only: run_observers_done) simp
next
  case False
  then have "fst (run_observers e url s) = Inl TimeoutError"
    by (rule run_observers_timeout)
  then show ?thesis by simp
qed

lemma get_external_hit:
  assumes "fst (get_cached_external_result e url s) = Some c" and "c \<noteq> []"
  shows "get_external_status_checks e url s = (Some c, snd (get_cached_external_result e url s))"
  using assms
  by (simp add: get_external_status_checks_def get_external_try_def split_def)

lemma get_external_never_empty: "fst (get_external_status_checks e url s) \<noteq> Some []"
proof (cases "fst (get_cached_external_result e url s) = None \<or>
              fst (get_cached_external_result e url s) = Some []")
  case True
  show ?thesis
  proof (cases "fst (run_observers e url (snd (get_cached_external_result e url s)))")
    case (Inl ex)
    then show ?thesis using True by (simp add: get_external_miss)
  next
    case (Inr chk)
    then have "chk \<noteq> []"
      using run_observers_nonempty [of e url "snd (get_cached_external_result e url s)"] by simp
    then show ?thesis using True Inr by (simp add: get_external_miss)
  qed
next
  case False
  then obtain c where "fst (get_cached_external_result e url s) = Some c" and "c \<noteq> []"
    by (cases "fst (get_cached_external_result e url s)") auto
  then show ?thesis by (simp add: get_external_hit)
qed


















lemma run_observers_all_fail:
  assumes "\<forall>u r. requests_get e u \<noteq> Response r"
      and "\<forall>u r. requests_head e u \<noteq> Response r"
      and fin: "completes_in_budget e ''downforeveryoneorjustme''"
               "completes_in_budget e ''isitdownrightnow''"
               "completes_in_budget e ''websiteplanet''"
  shows "\<exists>m. fst (run_observers e url s) = Inr m \<and>
             map_of m ''isitdownrightnow'' \<noteq> None \<and> map_of m ''websiteplanet'' \<noteq> None \<and>
             (\<forall>svc r. map_of m svc = Some r \<longrightarrow>
                       obs_status r = ''down'' \<or> obs_status r = ''error'')"
proof (cases "urlparse e url")
  case (Inl ex)
  then show ?thesis
    by (simp add: run_observers_done [OF fin] observers_unparsed)
next
  case (Inr p)
  then show ?thesis
    using assms dfeojm_parsed(3) [OF Inr] isitdown_parsed(3) [OF Inr]
          websiteplanet_parsed(3) [OF Inr]
    by (simp add: run_observers_done [OF fin])
qed


text \<open>
  Claim C3. The claim asks for an error-marked entry for every observer that failed.
  In \<open>site_up_env\<close> the request of \<^verbatim>\<open>downforeveryoneorjustme\<close> fails, the two other
  observers succeed and all three workers finish in time: the returned mapping has the
  two successful entries and nothing for the observer that failed. Its
  \<^verbatim>\<open>except: return None\<close> hands the loop a result that \<^verbatim>\<open>if r\<close> skips, where
  the two sibling observers return an entry for the same failure and the loop's own
  \<^verbatim>\<open>except\<close> branch would have recorded an error entry.
\<close>

theorem failed_observer_silently_absent:
  "requests_get site_up_env ''https://downforeveryoneorjustme.com/check?domain=example.com''
     = RequestException ''Connection failed'' \<and>
   completes_in_budget site_up_env ''downforeveryoneorjustme'' \<and>
   fst (check_downforeveryoneorjustme site_up_env ''https://example.com'' empty_state)
     = Inr None \<and>
   fst (get_external_status_checks site_up_env ''https://example.com'' empty_state) =
     Some [(''isitdownrightnow'', WithStatusCode ''up'' (PyInt 200)),
           (''websiteplanet'', WithProtocols ''up''
              [\<lparr>pe_protocol = ''https'', pe_status = ''up'', pe_status_code = Some (PyInt 200),
                pe_error = None\<rparr>,
               \<lparr>pe_protocol = ''http'', pe_status = ''up'', pe_status_code = Some (PyInt 200),
                pe_error = None\<rparr>])]"
  by code_simp

text \<open>
  Claim C9, as the code has it. \<^verbatim>\<open>get_external_status_checks\<close> has no exception
  branch: an exception raised in its \<^verbatim>\<open>try\<close> block gives the absent result
  \<open>None\<close>, and so does, when the cache read returns no payload, a worker that misses the
  deadline of the fan-out. It never returns an empty mapping. When the cache read
  returns no payload, all three workers finish within the deadline and every observer
  request fails, it returns a mapping that has an entry for \<^verbatim>\<open>isitdownrightnow\<close> and
  one for \<^verbatim>\<open>websiteplanet\<close> and in which every entry has the status \<^verbatim>\<open>down\<close> or
  \<^verbatim>\<open>error\<close>.
\<close>

theorem get_external_status_checks_absent_or_nonempty:
  "(\<forall>ex. fst (get_external_try e url s) = Inl ex \<longrightarrow>
      fst (get_external_status_checks e url s) = None) \<and>
   fst (get_external_status_checks e url s) \<noteq> Some [] \<and>
   (fst (get_cached_external_result e url s) = None \<and>
    \<not> (completes_in_budget e ''downforeveryoneorjustme'' \<and>
       completes_in_budget e ''isitdownrightnow'' \<and>
       completes_in_budget e ''websiteplanet'') \<longrightarrow>
      fst (get_external_status_checks e url s) = None) \<and>
   (fst (get_cached_external_result e url s) = None \<and>
    completes_in_budget e ''downforeveryoneorjustme'' \<and>
    completes_in_budget e ''isitdownrightnow'' \<and>
    completes_in_budget e ''websiteplanet'' \<and>
    (\<forall>u r. requests_get e u \<noteq> Response r) \<and> (\<forall>u r. requests_head e u \<noteq> Response r) \<longrightarrow>
      (\<exists>m. fst (get_external_status_checks e url s) = Some m \<and>
           map_of m ''isitdownrightnow'' \<noteq> None \<and> map_of m ''websiteplanet'' \<noteq> None \<and>
           (\<forall>svc r. map_of m svc = Some r \<longrightarrow>
                     obs_status r = ''down'' \<or> obs_status r = ''error'')))"
proof (intro conjI allI impI)
  fix ex
  assume "fst (get_external_try e url s) = Inl ex"
  then show "fst (get_external_status_checks e url s) = None"
    by (simp add: get_external_status_checks_def split_def)
next
  show "fst (get_external_status_checks e url s) \<noteq> Some []"
    by (rule get_external_never_empty)
next
  assume "fst (get_cached_external_result e url s) = None \<and>
    \<not> (completes_in_budget e ''downforeveryoneorjustme'' \<and>
       completes_in_budget e ''isitdownrightnow'' \<and>
       completes_in_budget e ''websiteplanet'')"
  then show "fst (get_external_status_checks e url s) = None"
    by (simp add: get_external_miss run_observers_timeout)
next
  assume h: "fst (get_cached_external_result e url s) = None \<and>
    completes_in_budget e ''downforeveryoneorjustme'' \<and>
    completes_in_budget e ''isitdownrightnow'' \<and>
    completes_in_budget e ''websiteplanet'' \<and>
    (\<forall>u r. requests_get e u \<noteq> Response r) \<and> (\<forall>u r. requests_head e u \<noteq> Response r)"
  then obtain m where
        m: "fst (run_observers e url (snd (get_cached_external_result e url s))) = Inr m"
    and entries: "map_of m ''isitdownrightnow'' \<noteq> None" "map_of m ''websiteplanet'' \<noteq> None"
                 "\<forall>svc r. map_of m svc = Some r \<longrightarrow>
                           obs_status r = ''down'' \<or> obs_status r = ''error''"
    using run_observers_all_fail [of e url "snd (get_cached_external_result e url s)"]
    by blast
  have "fst (get_external_status_checks e url s) = Some m"
    using h m by (simp add: get_external_miss)
  then show "\<exists>m. fst (get_external_status_checks e url s) = Some m \<and>
           map_of m ''isitdownrightnow'' \<noteq> None \<and> map_of m ''websiteplanet'' \<noteq> None \<and>
           (\<forall>svc r. map_of m svc = Some r \<longrightarrow>
                     obs_status r = ''down'' \<or> obs_status r = ''error'')"
    using entries by blast
qed

text \<open>
  One worker misses the deadline: the result is absent. No request gets through for a
  URL that does not parse: three entries, each marked \<^verbatim>\<open>error\<close>.
\<close>

theorem get_external_status_checks_absent_or_nonempty_witness:
  "fst (get_external_status_checks slow_observer_env ''https://example.com'' empty_state) = None \<and>
   (\<exists>m. fst (get_external_status_checks offline_env ''x://['' empty_state) = Some m \<and>
        map_of m ''isitdownrightnow'' \<noteq> None \<and> map_of m ''websiteplanet'' \<noteq> None)"
proof -
  have miss: "fst (get_cached_external_result slow_observer_env ''https://example.com''
                     empty_state) = None"
    by (simp add: get_cached_external_result_def get_cached_try_def log_call_def Let_def
          slow_observer_env_def site_up_env_def offline_env_def empty_state_def)
  have slow: "\<not> (completes_in_budget slow_observer_env ''downforeveryoneorjustme'' \<and>
               completes_in_budget slow_observer_env ''isitdownrightnow'' \<and>
               completes_in_budget slow_observer_env ''websiteplanet'')"
    by (simp add: slow_observer_env_def)
  have miss': "fst (get_cached_external_result offline_env ''x://['' empty_state) = None"
    by (simp add: get_cached_external_result_def get_cached_try_def log_call_def Let_def
          offline_env_def empty_state_def)
  have off: "completes_in_budget offline_env ''downforeveryoneorjustme'' \<and>
             completes_in_budget offline_env ''isitdownrightnow'' \<and>
             completes_in_budget offline_env ''websiteplanet'' \<and>
             (\<forall>u r. requests_get offline_env u \<noteq> Response r) \<and>
             (\<forall>u r. requests_head offline_env u \<noteq> Response r)"
    by (simp add: offline_env_def)
  show ?thesis
    using get_external_status_checks_absent_or_nonempty
            [of slow_observer_env "''https://example.com''" empty_state]
          get_external_status_checks_absent_or_nonempty
            [of offline_env "''x://[''" empty_state]
          miss slow miss' off
    by blast
qed

text \<open>
  The claim as stated fails: nothing is cached, no observer request gets through, and
  the result is neither absent nor empty.
\<close>

theorem unreachable_observers_reported_down:
  "fst (get_cached_external_result offline_env ''https://example.com'' empty_state) = None \<and>
   fst (get_external_status_checks offline_env ''https://example.com'' empty_state) =
     Some [(''isitdownrightnow'', WithError ''down'' ''Connection failed''),
           (''websiteplanet'', WithProtocols ''down''
              [\<lparr>pe_protocol = ''https'', pe_status = ''down'', pe_status_code = None,
                pe_error = Some ''Connection failed''\<rparr>,
               \<lparr>pe_protocol = ''http'', pe_status = ''down'', pe_status_code = None,
                pe_error = Some ''Connection failed''\<rparr>])]"
  by code_simp




subsection \<open>Request validation\<close>





subsection \<open>The multi-region consensus\<close>

lemma invoke_loop_kept:
  "fst (invoke_loop e url rs acc s) = acc @ kept_replies e url rs"
  by (induction rs arbitrary: acc s)
     (auto simp: kept_replies_def Let_def split: invoke_outcome.splits option.splits)

lemma get_status_region: "get_status x = Inr st \<Longrightarrow> region_status x = st"
  by (cases x rule: get_status.cases) simp_all

lemma count_up_reachable:
  "count_up xs acc = Inr n \<Longrightarrow> n = acc + length (filter reachable xs)"
proof (induction xs arbitrary: acc)
  case Nil
  then show ?case by simp
next
  case (Cons x xs)
  show ?case
  proof (cases "get_status x")
    case (Inl ex)
    then show ?thesis using Cons.prems by simp
  next
    case (Inr st)
    then have st: "region_status x = st" by (rule get_status_region)
    show ?thesis
    proof (cases "reachable x")
      case True
      then have "count_up xs (acc + 1) = Inr n"
        using Cons.prems Inr st by (auto simp: reachable_def)
      then have "n = acc + 1 + length (filter reachable xs)" by (rule Cons.IH)
      then show ?thesis using True by simp
    next
      case False
      then have "count_up xs acc = Inr n"
        using Cons.prems Inr st by (auto simp: reachable_def)
      then have "n = acc + length (filter reachable xs)" by (rule Cons.IH)
      then show ?thesis using False by simp
    qed
  qed
qed

lemma split_chr_nonempty: "split_chr c x \<noteq> []"
  by (cases x) (auto split: list.splits)

lemma collect_peers_kept:
  "fst (collect_peers e url s) = Inr others \<Longrightarrow>
   others = (if hd (split_chr CHR '','' (other_regions_var e)) \<noteq> []
             then kept_replies e url (split_chr CHR '','' (other_regions_var e)) else [])"
  using invoke_loop_kept [of e url "split_chr CHR '','' (other_regions_var e)" "[]" s]
  by (auto simp: collect_peers_def Let_def split_def split_chr_nonempty
           split: option.splits if_splits)

lemma consensus_result:
  assumes "consensus url all_res = Inr r" and "resp_body r = MultiBody m"
  shows "mr_url m = url \<and> mr_results m = all_res \<and>
         regions_up m = length (filter reachable all_res) \<and>
         total_regions m = length all_res \<and>
         mr_overall_status m =
           (if regions_up m = total_regions m then ''up''
            else if regions_up m = 0 then ''down'' else ''mixed'')"
proof (cases "count_up all_res 0")
  case (Inl ex)
  then show ?thesis using assms by (simp add: consensus_def)
next
  case (Inr up)
  then have up: "up = length (filter reachable all_res)"
    using count_up_reachable [of all_res 0 up] by simp
  show ?thesis
  proof (cases "analyze_multi_region_results all_res")
    case (Inl ex)
    then show ?thesis using assms Inr by (simp add: consensus_def Let_def)
  next
    case (Inr analysis)
    then show ?thesis
      using assms \<open>count_up all_res 0 = Inr up\<close> up
      by (auto simp: consensus_def Let_def cors_response_def split: if_splits)
  qed
qed

lemma multi_region_try_ok:
  assumes "multi_region_try e ev s = (Inr r, s')" and "resp_body r = MultiBody m"
  shows "\<exists>url loc s1 others.
           check_website_status e url s = (Inr loc, s1) \<and>
           fst (collect_peers e url s1) = Inr others \<and>
           consensus url (Local loc # map Peer others) = Inr r"
proof (cases "ev_body ev")
  case BodyAbsent
  then show ?thesis using assms by (auto simp: multi_region_try_def cors_response_def)
next
  case BodyUnparsable
  then show ?thesis using assms by (simp add: multi_region_try_def)
next
  case (BodyObject u)
  show ?thesis
  proof (cases u)
    case None
    then show ?thesis
      using assms BodyObject by (auto simp: multi_region_try_def cors_response_def)
  next
    case (Some url)
    show ?thesis
    proof (cases "url = []")
      case True
      then show ?thesis
        using assms BodyObject Some by (auto simp: multi_region_try_def cors_response_def)
    next
      case False
      obtain res s1 where cws: "check_website_status e url s = (res, s1)"
        by (cases "check_website_status e url s")
      obtain peers s2 where cp: "collect_peers e url s1 = (peers, s2)"
        by (cases "collect_peers e url s1")
      show ?thesis
      proof (cases res)
        case (Inl ex)
        then show ?thesis
          using assms BodyObject Some False cws by (simp add: multi_region_try_def)
      next
        case (Inr loc)
        show ?thesis
        proof (cases peers)
          case (Inl ex)
          then show ?thesis
            using assms BodyObject Some False cws \<open>res = Inr loc\<close> cp
            by (simp add: multi_region_try_def)
        next
          case (Inr others)
          then have "consensus url (Local loc # map Peer others) = Inr r"
            using assms BodyObject Some False cws \<open>res = Inr loc\<close> cp
            by (simp add: multi_region_try_def)
          moreover have "check_website_status e url s = (Inr loc, s1)"
            using cws \<open>res = Inr loc\<close> by simp
          moreover have "fst (collect_peers e url s1) = Inr others"
            using cp Inr by simp
          ultimately show ?thesis by blast
        qed
      qed
    qed
  qed
qed

text \<open>
  Claim C4. In every response of \<^verbatim>\<open>multi_region_check\<close> that carries a consensus,
  \<open>regions_up\<close> is the number of collected region results whose status is \<^verbatim>\<open>up\<close> or
  \<^verbatim>\<open>partial\<close>, \<open>total_regions\<close> is the number of results collected, which are the
  local result followed by the replies kept from the peers (a peer whose invocation
  failed is in neither the list nor the denominator), and the overall status is
  \<^verbatim>\<open>up\<close> when \<open>regions_up\<close> equals \<open>total_regions\<close>, \<^verbatim>\<open>down\<close> when
  \<open>regions_up\<close> is zero, and \<^verbatim>\<open>mixed\<close> otherwise.
\<close>

theorem multi_region_check_consensus:
  assumes "fst (multi_region_check e ev s) = Inr r" and "resp_body r = MultiBody m"
  shows "regions_up m = length (filter reachable (mr_results m)) \<and>
         total_regions m = length (mr_results m) \<and>
         1 \<le> total_regions m \<and>
         (\<exists>loc. fst (check_website_status e (mr_url m) s) = Inr loc \<and>
                mr_results m =
                  Local loc #
                  map Peer (if hd (split_chr CHR '','' (other_regions_var e)) \<noteq> []
                            then kept_replies e (mr_url m)
                                   (split_chr CHR '','' (other_regions_var e))
                            else [])) \<and>
         mr_overall_status m =
           (if regions_up m = total_regions m then ''up''
            else if regions_up m = 0 then ''down'' else ''mixed'')"
proof -
  obtain res s' where run: "multi_region_try e ev s = (res, s')"
    by (cases "multi_region_try e ev s")
  have res: "res = Inr r"
    using assms run
    by (cases res) (auto simp: multi_region_check_def cors_response_def)
  obtain url loc s1 others where
        cws: "check_website_status e url s = (Inr loc, s1)"
    and cp: "fst (collect_peers e url s1) = Inr others"
    and con: "consensus url (Local loc # map Peer others) = Inr r"
    using multi_region_try_ok run res assms(2) by blast
  have fields: "mr_url m = url \<and> mr_results m = Local loc # map Peer others \<and>
         regions_up m = length (filter reachable (Local loc # map Peer others)) \<and>
         total_regions m = length (Local loc # map Peer others) \<and>
         mr_overall_status m =
           (if regions_up m = total_regions m then ''up''
            else if regions_up m = 0 then ''down'' else ''mixed'')"
    by (rule consensus_result [OF con assms(2)])
  have others: "others = (if hd (split_chr CHR '','' (other_regions_var e)) \<noteq> []
             then kept_replies e url (split_chr CHR '','' (other_regions_var e)) else [])"
    by (rule collect_peers_kept [OF cp])
  have "fst (check_website_status e (mr_url m) s) = Inr loc"
    using fields cws by simp
  moreover have "mr_results m =
                  Local loc #
                  map Peer (if hd (split_chr CHR '','' (other_regions_var e)) \<noteq> []
                            then kept_replies e (mr_url m)
                                   (split_chr CHR '','' (other_regions_var e))
                            else [])"
    using fields others by simp
  ultimately show ?thesis
    using fields by simp
qed

text \<open>
  Three peers are configured: one answers \<^verbatim>\<open>partial\<close>, one cannot be invoked, one
  answers \<^verbatim>\<open>down\<close>. The local check is \<^verbatim>\<open>up\<close>: three results are collected, the
  local one and the peer that answered \<^verbatim>\<open>partial\<close> are reachable, the consensus is
  \<^verbatim>\<open>mixed\<close>.
\<close>

theorem multi_region_check_consensus_witness:
  "\<exists>r m. fst (multi_region_check three_peers_env (post_event ''example.com'') empty_state)
            = Inr r \<and> resp_body r = MultiBody m \<and>
         regions_up m = 2 \<and> total_regions m = 3 \<and> mr_overall_status m = ''mixed'' \<and>
         length (filter reachable (mr_results m)) = 2 \<and> length (mr_results m) = 3 \<and>
         tl (mr_results m) = [Peer (JObject (Some ''partial'')), Peer (JObject (Some ''down''))]"
proof -
  have run: "case fst (multi_region_check three_peers_env (post_event ''example.com'')
                        empty_state) of
               Inr r \<Rightarrow>
                 (case resp_body r of
                    MultiBody m \<Rightarrow>
                      regions_up m = 2 \<and> total_regions m = 3 \<and>
                      mr_overall_status m = ''mixed'' \<and>
                      tl (mr_results m) =
                        [Peer (JObject (Some ''partial'')), Peer (JObject (Some ''down''))]
                  | _ \<Rightarrow> False)
             | Inl ex \<Rightarrow> False"
    by code_simp
  then obtain r where
        r: "fst (multi_region_check three_peers_env (post_event ''example.com'') empty_state)
              = Inr r"
    and inner: "case resp_body r of
                  MultiBody m \<Rightarrow>
                    regions_up m = 2 \<and> total_regions m = 3 \<and>
                    mr_overall_status m = ''mixed'' \<and>
                    tl (mr_results m) =
                      [Peer (JObject (Some ''partial'')), Peer (JObject (Some ''down''))]
                | _ \<Rightarrow> False"
    by (cases "fst (multi_region_check three_peers_env (post_event ''example.com'')
                      empty_state)") auto
  then obtain m where
        body: "resp_body r = MultiBody m"
    and vals: "regions_up m = 2" "total_regions m = 3" "mr_overall_status m = ''mixed''"
              "tl (mr_results m) =
                 [Peer (JObject (Some ''partial'')), Peer (JObject (Some ''down''))]"
    by (cases "resp_body r") auto
  show ?thesis
    using multi_region_check_consensus [OF r body] r body vals by auto
qed

end
